theory Spec2Isabelle
  imports Main "HOL-Library.Sublist"
begin

section \<open>The Sphinx configuration modules of Visplot\<close>

text \<open>
  The repository holds two Python modules, \<^verbatim>\<open>docs/conf.py\<close> and
  \<^verbatim>\<open>readthedocs/conf.py\<close>. Each is a sequence of module-level assignment
  statements whose right-hand sides are literals: string literals (in single or in double
  quotes, which denote the same value), the integer literal \<^verbatim>\<open>4\<close>, the constant
  \<^verbatim>\<open>True\<close>, and list displays of string literals. Comment lines and blank lines
  are dropped by the Python tokenizer and are no statements.

  The modules are embedded as values of a small abstract syntax, and the Python semantics of
  executing such a module is a function from the namespace in which the module is executed
  to either an error or the namespace after the last statement.
\<close>

subsection \<open>Values, expressions, statements\<close>

datatype pyval = VStr string | VInt int | VBool bool | VList "pyval list"

text \<open>
  Expressions: the literal forms the two modules use, and a name reference. A name reference
  is the one expression form of this fragment whose evaluation can raise (a
  \<^verbatim>\<open>NameError\<close> when the name is unbound); neither module contains one.
\<close>

datatype expr =
    StrLit string
  | IntLit int
  | BoolLit bool
  | ListLit "expr list"
  | Name string

datatype stmt = Assign string expr

datatype error = NameError string

type_synonym env = "string \<rightharpoonup> pyval"

subsection \<open>Evaluation\<close>

fun eval_expr :: "env \<Rightarrow> expr \<Rightarrow> error + pyval"
  and eval_exprs :: "env \<Rightarrow> expr list \<Rightarrow> error + pyval list" where
  "eval_expr g (StrLit s) = Inr (VStr s)"
| "eval_expr g (IntLit n) = Inr (VInt n)"
| "eval_expr g (BoolLit b) = Inr (VBool b)"
| "eval_expr g (ListLit es) =
     (case eval_exprs g es of Inl err \<Rightarrow> Inl err | Inr vs \<Rightarrow> Inr (VList vs))"
| "eval_expr g (Name x) =
     (case g x of None \<Rightarrow> Inl (NameError x) | Some v \<Rightarrow> Inr v)"
| "eval_exprs g [] = Inr []"
| "eval_exprs g (e # es) =
     (case eval_expr g e of
        Inl err \<Rightarrow> Inl err
      | Inr v \<Rightarrow> (case eval_exprs g es of Inl err \<Rightarrow> Inl err | Inr vs \<Rightarrow> Inr (v # vs)))"

fun exec_stmt :: "env \<Rightarrow> stmt \<Rightarrow> error + env" where
  "exec_stmt g (Assign x e) =
     (case eval_expr g e of Inl err \<Rightarrow> Inl err | Inr v \<Rightarrow> Inr (g(x \<mapsto> v)))"

text \<open>Statements run in order; the first error ends the execution of the module.\<close>

fun exec_module :: "env \<Rightarrow> stmt list \<Rightarrow> error + env" where
  "exec_module g [] = Inr g"
| "exec_module g (s # ss) =
     (case exec_stmt g s of Inl err \<Rightarrow> Inl err | Inr g' \<Rightarrow> exec_module g' ss)"

text \<open>Executing a module in an empty namespace, and reading the result.\<close>

definition run :: "stmt list \<Rightarrow> error + env" where
  "run p = exec_module Map.empty p"

definition lookup_from :: "env \<Rightarrow> stmt list \<Rightarrow> string \<Rightarrow> pyval option" where
  "lookup_from g p x = (case exec_module g p of Inl err \<Rightarrow> None | Inr r \<Rightarrow> r x)"

definition lookup :: "stmt list \<Rightarrow> string \<Rightarrow> pyval option" where
  "lookup p x = lookup_from Map.empty p x"

definition bound_names :: "stmt list \<Rightarrow> string set" where
  "bound_names p = (case run p of Inl err \<Rightarrow> {} | Inr r \<Rightarrow> dom r)"

fun target :: "stmt \<Rightarrow> string" where
  "target (Assign x e) = x"

definition targets :: "stmt list \<Rightarrow> string list" where
  "targets p = map target p"

text \<open>An expression is a literal when no name reference occurs in it.\<close>

fun is_literal :: "expr \<Rightarrow> bool"
  and are_literals :: "expr list \<Rightarrow> bool" where
  "is_literal (StrLit s) = True"
| "is_literal (IntLit n) = True"
| "is_literal (BoolLit b) = True"
| "is_literal (ListLit es) = are_literals es"
| "is_literal (Name x) = False"
| "are_literals [] = True"
| "are_literals (e # es) = (is_literal e \<and> are_literals es)"

fun literal_stmt :: "stmt \<Rightarrow> bool" where
  "literal_stmt (Assign x e) = is_literal e"

fun literal_module :: "stmt list \<Rightarrow> bool" where
  "literal_module [] = True"
| "literal_module (s # ss) = (literal_stmt s \<and> literal_module ss)"

subsection \<open>The two modules\<close>

text \<open>\<^verbatim>\<open>docs/conf.py\<close>: fourteen assignments.\<close>

definition docs_conf :: "stmt list" where
  "docs_conf =
    [Assign ''project'' (StrLit ''Visplot''),
     Assign ''copyright'' (StrLit ''2026, irl, ega''),
     Assign ''author'' (StrLit ''irl, ega''),
     Assign ''extensions'' (ListLit
       [StrLit ''sphinx.ext.autosectionlabel'',
        StrLit ''sphinx.ext.autodoc'',
        StrLit ''sphinx.ext.autosummary'',
        StrLit ''sphinx.ext.doctest'',
        StrLit ''sphinx.ext.todo'',
        StrLit ''sphinx.ext.mathjax'',
        StrLit ''sphinx.ext.ifconfig'',
        StrLit ''sphinx.ext.viewcode'']),
     Assign ''templates_path'' (ListLit [StrLit ''_templates'']),
     Assign ''exclude_patterns''
       (ListLit [StrLit ''_build'', StrLit ''Thumbs.db'', StrLit ''.DS_Store'']),
     Assign ''autosectionlabel_prefix_document'' (BoolLit True),
     Assign ''autosectionlabel_maxdepth'' (IntLit 4),
     Assign ''html_theme'' (StrLit ''sphinx_rtd_theme''),
     Assign ''html_logo'' (StrLit ''figs/visplot-icon.png''),
     Assign ''html_title'' (StrLit ''Visplot''),
     Assign ''html_short_title'' (StrLit ''Visplot''),
     Assign ''html_static_path'' (ListLit [StrLit ''_static'']),
     Assign ''html_css_files'' (ListLit [StrLit ''visplot.css''])]"

text \<open>\<^verbatim>\<open>readthedocs/conf.py\<close>: thirteen assignments.\<close>

definition readthedocs_conf :: "stmt list" where
  "readthedocs_conf =
    [Assign ''project'' (StrLit ''Visplot''),
     Assign ''copyright'' (StrLit ''2026, irl, ega''),
     Assign ''author'' (StrLit ''irl, ega''),
     Assign ''extensions'' (ListLit
       [StrLit ''sphinx.ext.autosectionlabel'',
        StrLit ''sphinx.ext.autodoc'',
        StrLit ''sphinx.ext.autosummary'',
        StrLit ''sphinx.ext.doctest'',
        StrLit ''sphinx.ext.todo'',
        StrLit ''sphinx.ext.mathjax'',
        StrLit ''sphinx.ext.ifconfig'',
        StrLit ''sphinx.ext.viewcode'']),
     Assign ''templates_path'' (ListLit [StrLit ''_templates'']),
     Assign ''exclude_patterns''
       (ListLit [StrLit ''_build'', StrLit ''Thumbs.db'', StrLit ''.DS_Store'']),
     Assign ''autosectionlabel_prefix_document'' (BoolLit True),
     Assign ''autosectionlabel_maxdepth'' (IntLit 4),
     Assign ''html_theme'' (StrLit ''sphinx_rtd_theme''),
     Assign ''html_logo'' (StrLit ''figs/visplot-icon.png''),
     Assign ''html_title'' (StrLit ''Visplot''),
     Assign ''html_short_title'' (StrLit ''Visplot''),
     Assign ''html_static_path'' (ListLit [StrLit ''_static''])]"

subsection \<open>Types of settings\<close>

datatype pytype = TStr | TInt | TBool | TList pytype

fun has_type :: "pyval \<Rightarrow> pytype \<Rightarrow> bool" where
  "has_type (VStr s) TStr = True"
| "has_type (VInt n) TInt = True"
| "has_type (VBool b) TBool = True"
| "has_type (VList vs) (TList t) = list_all (\<lambda>v. has_type v t) vs"
| "has_type v t = False"

text \<open>
  Modelled from the spec: the schema of the documentation generator that reads the modules
  is owned by that tool and is not part of the repository. The table below gives each
  setting the type the specification names for it: strings for the metadata and the HTML
  theme settings, lists of strings for the extensions and the path lists, a boolean and an
  integer for the two section-label settings. A name outside the table has no entry.
\<close>

definition schema :: "string \<Rightarrow> pytype option" where
  "schema x =
     (if x \<in> {''project'', ''copyright'', ''author'', ''html_theme'', ''html_logo'',
               ''html_title'', ''html_short_title''} then Some TStr
      else if x \<in> {''extensions'', ''templates_path'', ''exclude_patterns'',
                    ''html_static_path'', ''html_css_files''} then Some (TList TStr)
      else if x = ''autosectionlabel_prefix_document'' then Some TBool
      else if x = ''autosectionlabel_maxdepth'' then Some TInt
      else None)"

text \<open>A value is a string that begins with the given prefix.\<close>

fun startswith :: "string \<Rightarrow> pyval \<Rightarrow> bool" where
  "startswith p (VStr s) = prefix p s"
| "startswith p v = False"

subsection \<open>The namespaces the modules produce\<close>

lemma run_docs_conf:
  "run docs_conf = Inr
    [''project'' \<mapsto> VStr ''Visplot'',
     ''copyright'' \<mapsto> VStr ''2026, irl, ega'',
     ''author'' \<mapsto> VStr ''irl, ega'',
     ''extensions'' \<mapsto> VList
       [VStr ''sphinx.ext.autosectionlabel'',
        VStr ''sphinx.ext.autodoc'',
        VStr ''sphinx.ext.autosummary'',
        VStr ''sphinx.ext.doctest'',
        VStr ''sphinx.ext.todo'',
        VStr ''sphinx.ext.mathjax'',
        VStr ''sphinx.ext.ifconfig'',
        VStr ''sphinx.ext.viewcode''],
     ''templates_path'' \<mapsto> VList [VStr ''_templates''],
     ''exclude_patterns'' \<mapsto> VList [VStr ''_build'', VStr ''Thumbs.db'', VStr ''.DS_Store''],
     ''autosectionlabel_prefix_document'' \<mapsto> VBool True,
     ''autosectionlabel_maxdepth'' \<mapsto> VInt 4,
     ''html_theme'' \<mapsto> VStr ''sphinx_rtd_theme'',
     ''html_logo'' \<mapsto> VStr ''figs/visplot-icon.png'',
     ''html_title'' \<mapsto> VStr ''Visplot'',
     ''html_short_title'' \<mapsto> VStr ''Visplot'',
     ''html_static_path'' \<mapsto> VList [VStr ''_static''],
     ''html_css_files'' \<mapsto> VList [VStr ''visplot.css'']]"
  unfolding run_def docs_conf_def by simp

lemma run_readthedocs_conf:
  "run readthedocs_conf = Inr
    [''project'' \<mapsto> VStr ''Visplot'',
     ''copyright'' \<mapsto> VStr ''2026, irl, ega'',
     ''author'' \<mapsto> VStr ''irl, ega'',
     ''extensions'' \<mapsto> VList
       [VStr ''sphinx.ext.autosectionlabel'',
        VStr ''sphinx.ext.autodoc'',
        VStr ''sphinx.ext.autosummary'',
        VStr ''sphinx.ext.doctest'',
        VStr ''sphinx.ext.todo'',
        VStr ''sphinx.ext.mathjax'',
        VStr ''sphinx.ext.ifconfig'',
        VStr ''sphinx.ext.viewcode''],
     ''templates_path'' \<mapsto> VList [VStr ''_templates''],
     ''exclude_patterns'' \<mapsto> VList [VStr ''_build'', VStr ''Thumbs.db'', VStr ''.DS_Store''],
     ''autosectionlabel_prefix_document'' \<mapsto> VBool True,
     ''autosectionlabel_maxdepth'' \<mapsto> VInt 4,
     ''html_theme'' \<mapsto> VStr ''sphinx_rtd_theme'',
     ''html_logo'' \<mapsto> VStr ''figs/visplot-icon.png'',
     ''html_title'' \<mapsto> VStr ''Visplot'',
     ''html_short_title'' \<mapsto> VStr ''Visplot'',
     ''html_static_path'' \<mapsto> VList [VStr ''_static'']]"
  unfolding run_def readthedocs_conf_def by simp

lemma lookup_run: "run p = Inr r \<Longrightarrow> lookup p x = r x"
  by (simp add: lookup_def lookup_from_def run_def)

lemma bound_names_run: "run p = Inr r \<Longrightarrow> bound_names p = dom r"
  by (simp add: bound_names_def)

lemmas lookup_docs = lookup_run [OF run_docs_conf]
lemmas lookup_readthedocs = lookup_run [OF run_readthedocs_conf]

lemma bound_names_lookup: "bound_names p = dom (lookup p)"
  by (auto simp: bound_names_def lookup_def lookup_from_def run_def dom_def
      split: sum.splits)

subsection \<open>Modules of literal assignments\<close>

text \<open>
  A literal evaluates to the same value in every namespace, and never raises.
\<close>

lemma eval_literal:
  "is_literal e \<Longrightarrow> \<exists>v. \<forall>g. eval_expr g e = Inr v"
  "are_literals es \<Longrightarrow> \<exists>vs. \<forall>g. eval_exprs g es = Inr vs"
proof (induction e and es rule: is_literal_are_literals.induct)
  case (4 es)
  then obtain vs where "\<forall>g. eval_exprs g es = Inr vs" by auto
  then show ?case by simp
next
  case (7 e es)
  then obtain v vs where "\<forall>g. eval_expr g e = Inr v" "\<forall>g. eval_exprs g es = Inr vs"
    by auto
  then show ?case by simp
qed simp_all

text \<open>
  A module of literal assignments overrides the namespace it starts in with a fixed set of
  bindings, one for each assignment target.
\<close>

lemma exec_literal_module:
  "literal_module p \<Longrightarrow>
     \<exists>b. dom b = set (targets p) \<and> (\<forall>g. exec_module g p = Inr (g ++ b))"
proof (induction p)
  case Nil
  show ?case by (simp add: targets_def)
next
  case (Cons s ss)
  obtain y e where s: "s = Assign y e" by (cases s)
  from Cons.prems s have "is_literal e" and "literal_module ss" by simp_all
  from eval_literal(1) [OF \<open>is_literal e\<close>]
  obtain v where v: "\<And>g. eval_expr g e = Inr v" by blast
  from Cons.IH [OF \<open>literal_module ss\<close>]
  obtain b where b: "dom b = set (targets ss)" "\<And>g. exec_module g ss = Inr (g ++ b)"
    by blast
  let ?b = "[y \<mapsto> v] ++ b"
  have "dom ?b = set (targets (s # ss))"
    using b(1) s by (auto simp: targets_def)
  moreover have "exec_module g (s # ss) = Inr (g ++ ?b)" for g
  proof -
    have "g(y \<mapsto> v) = g ++ [y \<mapsto> v]" by simp
    then show ?thesis by (simp add: s v b(2) del: map_add_upd map_add_empty)
  qed
  ultimately show ?case by blast
qed

lemma bound_names_targets: "literal_module p \<Longrightarrow> bound_names p = set (targets p)"
  using exec_literal_module [of p] by (auto simp: bound_names_def run_def)

lemma count_list_distinct: "distinct xs \<Longrightarrow> x \<in> set xs \<Longrightarrow> count_list xs x = 1"
  by (induction xs) auto

lemma literal_docs_conf: "literal_module docs_conf"
  by (simp add: docs_conf_def)

lemma literal_readthedocs_conf: "literal_module readthedocs_conf"
  by (simp add: readthedocs_conf_def)

lemma distinct_targets_docs: "distinct (targets docs_conf)"
  by (simp add: targets_def docs_conf_def)

lemma distinct_targets_readthedocs: "distinct (targets readthedocs_conf)"
  by (simp add: targets_def readthedocs_conf_def)

lemma assignment_kept_docs:
  "Assign x e \<in> set docs_conf \<Longrightarrow>
     \<exists>v. eval_expr Map.empty e = Inr v \<and> lookup docs_conf x = Some v"
  unfolding lookup_docs by (unfold docs_conf_def, simp, elim disjE; simp)

lemma assignment_kept_readthedocs:
  "Assign x e \<in> set readthedocs_conf \<Longrightarrow>
     \<exists>v. eval_expr Map.empty e = Inr v \<and> lookup readthedocs_conf x = Some v"
  unfolding lookup_readthedocs by (unfold readthedocs_conf_def, simp, elim disjE; simp)

subsection \<open>How the two modules differ\<close>

text \<open>
  The namespace of \<^verbatim>\<open>docs/conf.py\<close> is the namespace of
  \<^verbatim>\<open>readthedocs/conf.py\<close> with one more binding.
\<close>

lemma docs_extends_readthedocs:
  "lookup docs_conf =
     (lookup readthedocs_conf)(''html_css_files'' \<mapsto> VList [VStr ''visplot.css''])"
  by (rule ext) (simp add: lookup_docs lookup_readthedocs)

lemma readthedocs_no_css: "lookup readthedocs_conf ''html_css_files'' = None"
  by (simp add: lookup_readthedocs)

lemma bound_names_docs_insert:
  "bound_names docs_conf = insert ''html_css_files'' (bound_names readthedocs_conf)"
  by (simp add: bound_names_lookup docs_extends_readthedocs)

lemma css_not_bound_readthedocs: "''html_css_files'' \<notin> bound_names readthedocs_conf"
  by (simp add: bound_names_lookup domIff readthedocs_no_css)

subsection \<open>Values of individual settings\<close>

text \<open>
  Claim C2. Both modules bind \<^verbatim>\<open>extensions\<close> to the same ordered list of exactly
  eight extension identifiers: autosectionlabel, autodoc, autosummary, doctest, todo,
  mathjax, ifconfig, viewcode, each under \<^verbatim>\<open>sphinx.ext.\<close>, in that order.
\<close>

theorem extensions_value:
  "lookup docs_conf ''extensions'' = Some (VList
     [VStr ''sphinx.ext.autosectionlabel'',
      VStr ''sphinx.ext.autodoc'',
      VStr ''sphinx.ext.autosummary'',
      VStr ''sphinx.ext.doctest'',
      VStr ''sphinx.ext.todo'',
      VStr ''sphinx.ext.mathjax'',
      VStr ''sphinx.ext.ifconfig'',
      VStr ''sphinx.ext.viewcode''])
   \<and> lookup readthedocs_conf ''extensions'' = lookup docs_conf ''extensions''
   \<and> (case lookup docs_conf ''extensions'' of
         Some (VList vs) \<Rightarrow> length vs = 8 | _ \<Rightarrow> False)"
  by (simp add: lookup_docs lookup_readthedocs)

text \<open>
  Claim C3. Both modules declare the project metadata as three string bindings with the
  same values: project is \<^verbatim>\<open>Visplot\<close>, copyright is \<^verbatim>\<open>2026, irl, ega\<close>,
  author is \<^verbatim>\<open>irl, ega\<close>.
\<close>

theorem project_metadata:
  "lookup docs_conf ''project'' = Some (VStr ''Visplot'')
   \<and> lookup docs_conf ''copyright'' = Some (VStr ''2026, irl, ega'')
   \<and> lookup docs_conf ''author'' = Some (VStr ''irl, ega'')
   \<and> lookup readthedocs_conf ''project'' = Some (VStr ''Visplot'')
   \<and> lookup readthedocs_conf ''copyright'' = Some (VStr ''2026, irl, ega'')
   \<and> lookup readthedocs_conf ''author'' = Some (VStr ''irl, ega'')"
  by (simp add: lookup_docs lookup_readthedocs)

text \<open>
  Claim C10. Both modules bind \<^verbatim>\<open>autosectionlabel_prefix_document\<close> to
  \<^verbatim>\<open>True\<close> and \<^verbatim>\<open>autosectionlabel_maxdepth\<close> to the integer 4.
\<close>

theorem autosectionlabel_settings:
  "lookup docs_conf ''autosectionlabel_prefix_document'' = Some (VBool True)
   \<and> lookup docs_conf ''autosectionlabel_maxdepth'' = Some (VInt 4)
   \<and> lookup readthedocs_conf ''autosectionlabel_prefix_document'' = Some (VBool True)
   \<and> lookup readthedocs_conf ''autosectionlabel_maxdepth'' = Some (VInt 4)"
  by (simp add: lookup_docs lookup_readthedocs)

text \<open>
  Claim C9. In both modules the extensions list is well formed: its eight elements are
  pairwise distinct strings, and each begins with \<^verbatim>\<open>sphinx.ext.\<close>.
\<close>

theorem extensions_well_formed:
  "\<exists>vs. lookup docs_conf ''extensions'' = Some (VList vs)
      \<and> lookup readthedocs_conf ''extensions'' = Some (VList vs)
      \<and> length vs = 8
      \<and> distinct vs
      \<and> list_all (startswith ''sphinx.ext.'') vs"
  by (simp add: lookup_docs lookup_readthedocs)

subsection \<open>Evaluation of the modules\<close>

text \<open>
  Claim C6. Evaluating each module as a sequence of assignments of literal values succeeds:
  no error branch is reached and a final namespace results, from the empty namespace and
  from any other.
\<close>

theorem modules_evaluate_without_error:
  "(\<exists>r. run docs_conf = Inr r)
   \<and> (\<exists>r. run readthedocs_conf = Inr r)
   \<and> (\<forall>g. \<exists>r. exec_module g docs_conf = Inr r)
   \<and> (\<forall>g. \<exists>r. exec_module g readthedocs_conf = Inr r)"
proof (intro conjI)
  show "\<exists>r. run docs_conf = Inr r"
    using run_docs_conf by blast
  show "\<exists>r. run readthedocs_conf = Inr r"
    using run_readthedocs_conf by blast
  show "\<forall>g. \<exists>r. exec_module g docs_conf = Inr r"
    using exec_literal_module [OF literal_docs_conf] by blast
  show "\<forall>g. \<exists>r. exec_module g readthedocs_conf = Inr r"
    using exec_literal_module [OF literal_readthedocs_conf] by blast
qed

text \<open>
  Claim C7. Evaluating either module only binds literal values to names, so the outcome
  does not depend on anything the evaluation starts from: every right-hand side is a
  literal, the evaluation overrides the starting namespace with one fixed set of bindings,
  and two evaluations from any two starting namespaces give every name the module assigns
  the same value.
\<close>

theorem evaluation_deterministic:
  "literal_module docs_conf
   \<and> literal_module readthedocs_conf
   \<and> (\<exists>b. \<forall>g. exec_module g docs_conf = Inr (g ++ b))
   \<and> (\<exists>b. \<forall>g. exec_module g readthedocs_conf = Inr (g ++ b))
   \<and> (\<forall>g g' x. x \<in> set (targets docs_conf) \<longrightarrow>
         lookup_from g docs_conf x = lookup_from g' docs_conf x)
   \<and> (\<forall>g g' x. x \<in> set (targets readthedocs_conf) \<longrightarrow>
         lookup_from g readthedocs_conf x = lookup_from g' readthedocs_conf x)"
proof -
  have indep: "lookup_from g p x = lookup_from g' p x"
    if "literal_module p" and "x \<in> set (targets p)" for p g g' x
  proof -
    from exec_literal_module [OF that(1)]
    obtain b where b: "dom b = set (targets p)" "\<And>g. exec_module g p = Inr (g ++ b)"
      by blast
    from b(1) that(2) obtain v where "b x = Some v" by blast
    then show ?thesis by (simp add: lookup_from_def b(2))
  qed
  show ?thesis
    using exec_literal_module [OF literal_docs_conf]
      exec_literal_module [OF literal_readthedocs_conf]
      indep [OF literal_docs_conf] indep [OF literal_readthedocs_conf]
      literal_docs_conf literal_readthedocs_conf
    by blast
qed

theorem evaluation_deterministic_witness:
  "''project'' \<in> set (targets docs_conf)
   \<and> lookup_from [''project'' \<mapsto> VInt 0] docs_conf ''project''
       = lookup_from Map.empty docs_conf ''project''
   \<and> lookup_from Map.empty docs_conf ''project'' = Some (VStr ''Visplot'')"
proof -
  have h: "''project'' \<in> set (targets docs_conf)"
    by (simp add: targets_def docs_conf_def)
  have v: "lookup_from Map.empty docs_conf ''project'' = Some (VStr ''Visplot'')"
    using lookup_docs [of "''project''"] by (simp add: lookup_def)
  from evaluation_deterministic h
  have "lookup_from [''project'' \<mapsto> VInt 0] docs_conf ''project''
          = lookup_from Map.empty docs_conf ''project''"
    by blast
  with h v show ?thesis by simp
qed

subsection \<open>One value for each name\<close>

text \<open>
  Claim C4. In each module every module-level name is assigned exactly once: the assignment
  targets are pairwise distinct, they are exactly the names the module binds, each bound
  name is the target of one assignment, and the resulting namespace maps the target of
  every assignment to the value of that assignment. (The line
  \<^verbatim>\<open># html_static_path = ['./pencil/static']\<close> of \<^verbatim>\<open>docs/conf.py\<close> is
  a comment, not a second assignment.)
\<close>

theorem names_assigned_once:
  "distinct (targets docs_conf)
   \<and> distinct (targets readthedocs_conf)
   \<and> bound_names docs_conf = set (targets docs_conf)
   \<and> bound_names readthedocs_conf = set (targets readthedocs_conf)
   \<and> (\<forall>x \<in> bound_names docs_conf. count_list (targets docs_conf) x = 1)
   \<and> (\<forall>x \<in> bound_names readthedocs_conf. count_list (targets readthedocs_conf) x = 1)
   \<and> (\<forall>x e. Assign x e \<in> set docs_conf \<longrightarrow>
         (\<exists>v. eval_expr Map.empty e = Inr v \<and> lookup docs_conf x = Some v))
   \<and> (\<forall>x e. Assign x e \<in> set readthedocs_conf \<longrightarrow>
         (\<exists>v. eval_expr Map.empty e = Inr v \<and> lookup readthedocs_conf x = Some v))"
proof (intro conjI)
  show "distinct (targets docs_conf)"
    by (rule distinct_targets_docs)
  show "distinct (targets readthedocs_conf)"
    by (rule distinct_targets_readthedocs)
  show d: "bound_names docs_conf = set (targets docs_conf)"
    by (rule bound_names_targets [OF literal_docs_conf])
  show r: "bound_names readthedocs_conf = set (targets readthedocs_conf)"
    by (rule bound_names_targets [OF literal_readthedocs_conf])
  show "\<forall>x \<in> bound_names docs_conf. count_list (targets docs_conf) x = 1"
    unfolding d using count_list_distinct [OF distinct_targets_docs] by blast
  show "\<forall>x \<in> bound_names readthedocs_conf. count_list (targets readthedocs_conf) x = 1"
    unfolding r using count_list_distinct [OF distinct_targets_readthedocs] by blast
  show "\<forall>x e. Assign x e \<in> set docs_conf \<longrightarrow>
         (\<exists>v. eval_expr Map.empty e = Inr v \<and> lookup docs_conf x = Some v)"
    using assignment_kept_docs by blast
  show "\<forall>x e. Assign x e \<in> set readthedocs_conf \<longrightarrow>
         (\<exists>v. eval_expr Map.empty e = Inr v \<and> lookup readthedocs_conf x = Some v)"
    using assignment_kept_readthedocs by blast
qed

theorem names_assigned_once_witness:
  "''html_static_path'' \<in> bound_names docs_conf
   \<and> count_list (targets docs_conf) ''html_static_path'' = 1
   \<and> Assign ''html_static_path'' (ListLit [StrLit ''_static'']) \<in> set docs_conf
   \<and> lookup docs_conf ''html_static_path'' = Some (VList [VStr ''_static''])"
proof -
  have m: "Assign ''html_static_path'' (ListLit [StrLit ''_static'']) \<in> set docs_conf"
    by (simp add: docs_conf_def)
  have t: "''html_static_path'' \<in> set (targets docs_conf)"
    by (simp add: targets_def docs_conf_def)
  from names_assigned_once t
  have b: "''html_static_path'' \<in> bound_names docs_conf" by simp
  with names_assigned_once
  have c: "count_list (targets docs_conf) ''html_static_path'' = 1" by blast
  from names_assigned_once m
  obtain v where "eval_expr Map.empty (ListLit [StrLit ''_static'']) = Inr v"
    and "lookup docs_conf ''html_static_path'' = Some v"
    by blast
  then have "lookup docs_conf ''html_static_path'' = Some (VList [VStr ''_static''])"
    by simp
  with m b c show ?thesis by simp
qed

subsection \<open>Conformance to the schema\<close>

text \<open>
  Claim C5. Every variable bound by either module conforms to the schema: the metadata and
  HTML theme settings are strings, the extensions and the path lists are lists of strings,
  \<^verbatim>\<open>autosectionlabel_prefix_document\<close> is a boolean and
  \<^verbatim>\<open>autosectionlabel_maxdepth\<close> an integer.
\<close>

theorem bindings_conform_to_schema:
  "\<forall>x v. lookup docs_conf x = Some v \<or> lookup readthedocs_conf x = Some v \<longrightarrow>
     (\<exists>t. schema x = Some t \<and> has_type v t)"
  by (auto simp add: lookup_docs lookup_readthedocs schema_def split: if_splits)

theorem bindings_conform_to_schema_witness:
  "lookup docs_conf ''autosectionlabel_maxdepth'' = Some (VInt 4)
   \<and> schema ''autosectionlabel_maxdepth'' = Some TInt
   \<and> has_type (VInt 4) TInt"
proof -
  have h: "lookup docs_conf ''autosectionlabel_maxdepth'' = Some (VInt 4)"
    by (simp add: lookup_docs)
  with bindings_conform_to_schema
  obtain t where "schema ''autosectionlabel_maxdepth'' = Some t" and "has_type (VInt 4) t"
    by blast
  moreover have "schema ''autosectionlabel_maxdepth'' = Some TInt"
    by (simp add: schema_def)
  ultimately show ?thesis using h by simp
qed

subsection \<open>Comparing the two modules\<close>

text \<open>
  Claim C1, as stated: the two modules bind the same set of variables. This fails:
  \<^verbatim>\<open>html_css_files\<close> is bound by \<^verbatim>\<open>docs/conf.py\<close> and not by
  \<^verbatim>\<open>readthedocs/conf.py\<close>.
\<close>

theorem same_variables_counterexample:
  "''html_css_files'' \<in> bound_names docs_conf
   \<and> ''html_css_files'' \<notin> bound_names readthedocs_conf
   \<and> bound_names docs_conf \<noteq> bound_names readthedocs_conf"
  using css_not_bound_readthedocs by (auto simp add: bound_names_docs_insert)

text \<open>
  Claim C1, amended. The two modules are near-identical: they bind the same set of
  module-level variables except for \<^verbatim>\<open>html_css_files\<close>, which only
  \<^verbatim>\<open>docs/conf.py\<close> binds, and every variable bound in both modules is bound to
  the same value in both.
\<close>

theorem near_identical_modules:
  "bound_names docs_conf = insert ''html_css_files'' (bound_names readthedocs_conf)
   \<and> ''html_css_files'' \<notin> bound_names readthedocs_conf
   \<and> (\<forall>x v w. lookup docs_conf x = Some v \<longrightarrow> lookup readthedocs_conf x = Some w \<longrightarrow> v = w)"
proof (intro conjI allI impI)
  show "bound_names docs_conf = insert ''html_css_files'' (bound_names readthedocs_conf)"
    by (rule bound_names_docs_insert)
  show "''html_css_files'' \<notin> bound_names readthedocs_conf"
    by (rule css_not_bound_readthedocs)
next
  fix x v w
  assume d: "lookup docs_conf x = Some v" and r: "lookup readthedocs_conf x = Some w"
  from r readthedocs_no_css have "x \<noteq> ''html_css_files''" by auto
  with d r show "v = w" by (simp add: docs_extends_readthedocs)
qed

theorem near_identical_modules_witness:
  "lookup docs_conf ''html_static_path'' = Some (VList [VStr ''_static''])
   \<and> lookup readthedocs_conf ''html_static_path'' = Some (VList [VStr ''_static''])
   \<and> ''html_static_path'' \<in> bound_names docs_conf"
proof -
  have d: "lookup docs_conf ''html_static_path'' = Some (VList [VStr ''_static''])"
    by (simp add: lookup_docs)
  obtain w where r: "lookup readthedocs_conf ''html_static_path'' = Some w"
    by (simp add: lookup_readthedocs)
  from near_identical_modules d r have "VList [VStr ''_static''] = w" by blast
  with r have r': "lookup readthedocs_conf ''html_static_path'' = Some (VList [VStr ''_static''])"
    by simp
  from r have "''html_static_path'' \<in> bound_names readthedocs_conf"
    by (simp add: bound_names_lookup domIff)
  with near_identical_modules have "''html_static_path'' \<in> bound_names docs_conf"
    by simp
  with d r' show ?thesis by simp
qed

text \<open>
  Claim C8. The set of variables bound by \<^verbatim>\<open>readthedocs/conf.py\<close> is the set
  bound by \<^verbatim>\<open>docs/conf.py\<close> minus \<^verbatim>\<open>html_css_files\<close>:
  \<^verbatim>\<open>docs/conf.py\<close> binds \<^verbatim>\<open>html_css_files\<close> to the one-element list
  holding \<^verbatim>\<open>visplot.css\<close>, \<^verbatim>\<open>readthedocs/conf.py\<close> has no assignment
  to it and no binding for it, and each variable bound by both modules has the same value
  in both.
\<close>

theorem readthedocs_is_docs_minus_css:
  "bound_names readthedocs_conf = bound_names docs_conf - {''html_css_files''}
   \<and> lookup docs_conf ''html_css_files'' = Some (VList [VStr ''visplot.css''])
   \<and> lookup readthedocs_conf ''html_css_files'' = None
   \<and> ''html_css_files'' \<notin> set (targets readthedocs_conf)
   \<and> (\<forall>x \<in> bound_names docs_conf \<inter> bound_names readthedocs_conf.
         lookup docs_conf x = lookup readthedocs_conf x)"
proof (intro conjI ballI)
  show "bound_names readthedocs_conf = bound_names docs_conf - {''html_css_files''}"
    using css_not_bound_readthedocs by (simp add: bound_names_docs_insert)
  show "lookup docs_conf ''html_css_files'' = Some (VList [VStr ''visplot.css''])"
    by (simp add: docs_extends_readthedocs)
  show "lookup readthedocs_conf ''html_css_files'' = None"
    by (rule readthedocs_no_css)
  show "''html_css_files'' \<notin> set (targets readthedocs_conf)"
    using css_not_bound_readthedocs
    by (simp add: bound_names_targets [OF literal_readthedocs_conf])
next
  fix x
  assume "x \<in> bound_names docs_conf \<inter> bound_names readthedocs_conf"
  with css_not_bound_readthedocs have "x \<noteq> ''html_css_files''" by auto
  then show "lookup docs_conf x = lookup readthedocs_conf x"
    by (simp add: docs_extends_readthedocs)
qed

theorem readthedocs_is_docs_minus_css_witness:
  "''html_theme'' \<in> bound_names docs_conf \<inter> bound_names readthedocs_conf
   \<and> lookup docs_conf ''html_theme'' = lookup readthedocs_conf ''html_theme''
   \<and> lookup readthedocs_conf ''html_theme'' = Some (VStr ''sphinx_rtd_theme'')"
proof -
  have r: "lookup readthedocs_conf ''html_theme'' = Some (VStr ''sphinx_rtd_theme'')"
    by (simp add: lookup_readthedocs)
  have d: "lookup docs_conf ''html_theme'' = Some (VStr ''sphinx_rtd_theme'')"
    by (simp add: lookup_docs)
  from r d have h: "''html_theme'' \<in> bound_names docs_conf \<inter> bound_names readthedocs_conf"
    by (simp add: bound_names_lookup domIff)
  with readthedocs_is_docs_minus_css
  have "lookup docs_conf ''html_theme'' = lookup readthedocs_conf ''html_theme''"
    by blast
  with h r show ?thesis by simp
qed

end
